theory Spec2Isabelle
  imports Main "HOL-Library.Word" "HOL-Library.Sublist" "HOL-Library.Multiset"
begin

section \<open>MidiDaemon: the event dispatch pipeline\<close>

text \<open>
  A shallow embedding of three Go packages of MidiDaemon:
  \<^item> \<^verbatim>\<open>internal/config\<close> (\<^verbatim>\<open>config.go\<close>): the configuration structs, \<^verbatim>\<open>setDefaults\<close>,
    \<^verbatim>\<open>validate\<close> and \<^verbatim>\<open>Load\<close>;
  \<^item> \<^verbatim>\<open>internal/actions\<close> (the manager): the executor registry with \<^verbatim>\<open>Execute\<close> and
    \<^verbatim>\<open>ValidateAction\<close>;
  \<^item> \<^verbatim>\<open>internal/midi\<close> (\<^verbatim>\<open>handler.go\<close>): \<^verbatim>\<open>Start\<close>, \<^verbatim>\<open>Close\<close>, \<^verbatim>\<open>handleEvent\<close>,
    \<^verbatim>\<open>matchesMapping\<close> and \<^verbatim>\<open>IsRunning\<close>.

  Conventions. Go's \<^verbatim>\<open>int\<close> is modelled by \<^typ>\<open>int\<close>: the functions below only compare
  and copy these values, except for the sleep duration, whose 64-bit multiplication is
  written out. A Go \<^verbatim>\<open>string\<close> is a \<^typ>\<open>string\<close> of bytes; the source files are UTF-8, so
  a German umlaut is two bytes. A Go \<^verbatim>\<open>error\<close> is a value of \<open>go_error\<close>, and \<^verbatim>\<open>nil\<close> is
  \<^term>\<open>None\<close>. Calls on the logger, on the MIDI port, on an executor, the launch of a
  goroutine, \<^verbatim>\<open>time.Sleep\<close> and \<^verbatim>\<open>close\<close> of a channel are recorded, in program order, in
  a list of effects that every stateful function returns beside its result and the new
  state. Struct fields whose name occurs in several structs carry a short prefix of
  their struct (\<open>act_\<close>, \<open>cev_\<close>, \<open>ev_\<close>), and so do the methods of the two interfaces
  (\<open>port_\<close>, \<open>exec_\<close>), which share names with methods of \<^verbatim>\<open>Handler\<close> and \<^verbatim>\<open>Manager\<close>; all
  other names are the source's.
\<close>

subsection \<open>Errors and strings\<close>

text \<open>
  An error has its message (\<^verbatim>\<open>Error()\<close>) and, when \<^verbatim>\<open>fmt.Errorf\<close> built it with \<^verbatim>\<open>%w\<close>,
  the error it wraps (\<^verbatim>\<open>Unwrap()\<close>).
\<close>

datatype go_error = GoError (Error: string) (Unwrap: "go_error option")

text \<open>\<^verbatim>\<open>fmt.Errorf(pre + "%w", err)\<close>: the message of the cause is appended.\<close>

definition Errorf_w :: "string \<Rightarrow> go_error \<Rightarrow> go_error" where
  "Errorf_w pre err = GoError (pre @ Error err) (Some err)"

definition auml :: string where "auml = [CHR 0xC3, CHR 0xA4]"
definition ouml :: string where "ouml = [CHR 0xC3, CHR 0xB6]"
definition uuml :: string where "uuml = [CHR 0xC3, CHR 0xBC]"
definition Ouml :: string where "Ouml = [CHR 0xC3, CHR 0x96]"
definition szlig :: string where "szlig = [CHR 0xC3, CHR 0x9F]"

text \<open>The format \<^verbatim>\<open>'%s'\<close>: the argument between two apostrophes.\<close>

definition quoted :: "string \<Rightarrow> string" where
  "quoted s = [CHR 0x27] @ s @ [CHR 0x27]"

text \<open>The format \<^verbatim>\<open>%d\<close>: a decimal numeral, with a minus sign below zero.\<close>

fun digits10 :: "nat \<Rightarrow> string" where
  "digits10 n =
     (if n < 10 then [char_of (48 + n)]
      else digits10 (n div 10) @ [char_of (48 + n mod 10)])"

declare digits10.simps [simp del]

definition fmt_d :: "int \<Rightarrow> string" where
  "fmt_d i = (if i < 0 then CHR ''-'' # digits10 (nat (- i)) else digits10 (nat i))"

subsection \<open>The configuration structs (\<^verbatim>\<open>config.go\<close>)\<close>

text \<open>
  \<^verbatim>\<open>Parameters\<close> is a \<^verbatim>\<open>map[string]interface{}\<close>; the type \<open>'v\<close> stands for the
  dynamically typed values.
\<close>

record 'v Action =
  act_Type :: string
  act_Parameters :: "string \<rightharpoonup> 'v"

record config_MIDIEvent =
  cev_Type :: string
  cev_Note :: int
  cev_Controller :: int
  cev_Program :: int
  cev_Velocity :: int
  cev_Value :: int

record 'v Mapping =
  Name :: string
  Event :: config_MIDIEvent
  Action :: "'v Action"
  Enabled :: bool

record MIDIConfig =
  InputPort :: string
  Channel :: int
  Timeout :: int

record GeneralConfig =
  LogLevel :: string
  AutoRestart :: bool
  ActionDelay :: int

record 'v Config =
  MIDI :: MIDIConfig
  Mappings :: "'v Mapping list"
  General :: GeneralConfig

subsection \<open>Events and effects (\<^verbatim>\<open>handler.go\<close>)\<close>

record MIDIEvent =
  ev_Type :: string
  ev_Channel :: int
  ev_Note :: int
  ev_Controller :: int
  ev_Program :: int
  ev_Velocity :: int
  ev_Value :: int
  ev_Timestamp :: nat

datatype LogLevel = LevelDebug | LevelInfo | LevelWarn | LevelError | LevelFatal

text \<open>The values passed as fields of a log call.\<close>

datatype 'v logval =
  VString string
| VInt int
| VError go_error
| VParams "string \<rightharpoonup> 'v"

text \<open>
  The observable steps of the program. \<open>GoExecute m\<close> is the launch of the goroutine
  \<^verbatim>\<open>go func(m config.Mapping) {...}(mapping)\<close> of \<^verbatim>\<open>handleEvent\<close>, whose body is
  \<open>handleEvent_go\<close> below; \<open>GoProcessEvents\<close> is the launch of the ingestion goroutine
  \<^verbatim>\<open>go h.processEvents(ctx, eventStream)\<close>, which calls \<^verbatim>\<open>handleEvent\<close> on each event it
  receives, one after the other. \<open>Sleep d\<close> is \<^verbatim>\<open>time.Sleep(d)\<close> with \<open>d\<close> in nanoseconds.
  \<open>ManagerExecute a\<close> is the call \<^verbatim>\<open>h.actionMgr.Execute(a)\<close>, recorded where the handler
  makes it; \<open>ExecutorExecute n a\<close> and \<open>ExecutorValidate n a\<close> are the calls the manager
  makes on the executor registered as \<open>n\<close>.
\<close>

datatype 'v effect =
  Log LogLevel string "(string \<times> 'v logval) list"
| PortGetPortNames
| PortOpen string
| PortReadEvents
| PortClose
| GoProcessEvents
| GoExecute "'v Mapping"
| Sleep int
| CloseChan string
| ManagerExecute "'v Action"
| ExecutorExecute string "'v Action"
| ExecutorValidate string "'v Action"

subsection \<open>\<^verbatim>\<open>matchesMapping\<close>\<close>

text \<open>
  The receiver \<^verbatim>\<open>h\<close> is not used by the Go function and is left out. The \<^verbatim>\<open>switch\<close> has
  no \<^verbatim>\<open>default\<close>: any other type falls through to the final \<^verbatim>\<open>return true\<close>.
\<close>

definition matchesMapping :: "MIDIEvent \<Rightarrow> config_MIDIEvent \<Rightarrow> bool" where
  "matchesMapping event mappingEvent =
     (if ev_Type event \<noteq> cev_Type mappingEvent then False
      else if ev_Type event = ''note_on'' \<or> ev_Type event = ''note_off'' then
        (if ev_Note event \<noteq> cev_Note mappingEvent then False
         else if cev_Velocity mappingEvent > 0
                 \<and> ev_Velocity event < cev_Velocity mappingEvent then False
         else True)
      else if ev_Type event = ''control_change'' then
        (if ev_Controller event \<noteq> cev_Controller mappingEvent then False
         else if cev_Value mappingEvent > 0
                 \<and> ev_Value event < cev_Value mappingEvent then False
         else True)
      else if ev_Type event = ''program_change'' then
        (if ev_Program event \<noteq> cev_Program mappingEvent then False
         else True)
      else True)"

subsection \<open>The action manager (\<^verbatim>\<open>internal/actions\<close>)\<close>

text \<open>
  An \<^verbatim>\<open>Executor\<close> is an interface value. Its \<^verbatim>\<open>Execute\<close> acts on the platform (volume,
  processes, keyboard, audio endpoints), whose state is the type \<open>'w\<close>: a method takes
  the platform state and returns its result with the new state. \<open>exec_Validate\<close> is
  \<^term>\<open>None\<close> when the dynamic type of the executor does not implement
  \<^verbatim>\<open>ActionValidator\<close>, so that the type assertion \<^verbatim>\<open>executor.(ActionValidator)\<close> fails.
\<close>

record ('v, 'w) Executor =
  exec_GetName :: string
  exec_Execute :: "'v Action \<Rightarrow> 'w \<Rightarrow> go_error option \<times> 'w"
  exec_Validate :: "('v Action \<Rightarrow> 'w \<Rightarrow> go_error option \<times> 'w) option"

text \<open>
  Of the \<^verbatim>\<open>Manager\<close> struct the model keeps the registry; the logger is the effect list
  and the mutex guards single map operations, which are atomic steps here.
\<close>

record ('v, 'w) Manager =
  executors :: "string \<rightharpoonup> ('v, 'w) Executor"

definition registerExecutor ::
  "('v, 'w) Manager \<Rightarrow> ('v, 'w) Executor \<Rightarrow> ('v, 'w) Manager" where
  "registerExecutor m executor =
     m\<lparr>executors := (executors m)(exec_GetName executor \<mapsto> executor)\<rparr>"

definition GetExecutor ::
  "('v, 'w) Manager \<Rightarrow> string \<Rightarrow> ('v, 'w) Executor option" where
  "GetExecutor m actionType = executors m actionType"

text \<open>
  \<^verbatim>\<open>Manager.Execute\<close>: the result is the returned error (\<^term>\<open>None\<close> for \<^verbatim>\<open>nil\<close>), the
  platform state and the effects.
\<close>

definition Execute ::
  "('v, 'w) Manager \<Rightarrow> 'v Action \<Rightarrow> 'w \<Rightarrow> go_error option \<times> 'w \<times> 'v effect list" where
  "Execute m action w =
     (case executors m (act_Type action) of
        None \<Rightarrow>
          (Some (GoError (''kein Executor f'' @ uuml @ ''r Aktion-Typ ''
                            @ quoted (act_Type action) @ '' gefunden'') None),
           w, [])
      | Some executor \<Rightarrow>
          (let t = [Log LevelDebug (''F'' @ uuml @ ''hre Aktion aus'')
                      [(''type'', VString (act_Type action)),
                       (''parameters'', VParams (act_Parameters action))],
                    ExecutorExecute (exec_GetName executor) action]
           in case exec_Execute executor action w of
                (Some err, w') \<Rightarrow>
                  (Some (Errorf_w (''fehler beim Ausf'' @ uuml @ ''hren der Aktion ''
                                     @ quoted (act_Type action) @ '': '') err),
                   w', t)
              | (None, w') \<Rightarrow>
                  (None, w',
                   t @ [Log LevelInfo (''Aktion erfolgreich ausgef'' @ uuml @ ''hrt'')
                          [(''type'', VString (act_Type action))]])))"

definition ValidateAction ::
  "('v, 'w) Manager \<Rightarrow> 'v Action \<Rightarrow> 'w \<Rightarrow> go_error option \<times> 'w \<times> 'v effect list" where
  "ValidateAction m action w =
     (case GetExecutor m (act_Type action) of
        None \<Rightarrow>
          (Some (GoError (''ung'' @ uuml @ ''ltiger Aktion-Typ: '' @ act_Type action) None),
           w, [])
      | Some executor \<Rightarrow>
          (case exec_Validate executor of
             Some validator \<Rightarrow>
               (case validator action w of
                  (r, w') \<Rightarrow> (r, w', [ExecutorValidate (exec_GetName executor) action]))
           | None \<Rightarrow> (None, w, [])))"

text \<open>
  The executor calls in an effect list: the pairs of executor name and action of its
  \<open>ExecutorExecute\<close> and \<open>ExecutorValidate\<close> entries.
\<close>

fun executor_calls :: "'v effect list \<Rightarrow> (string \<times> 'v Action) list" where
  "executor_calls [] = []"
| "executor_calls (ExecutorExecute n a # t) = (n, a) # executor_calls t"
| "executor_calls (ExecutorValidate n a # t) = (n, a) # executor_calls t"
| "executor_calls (_ # t) = executor_calls t"

subsection \<open>The handler (\<^verbatim>\<open>handler.go\<close>)\<close>

text \<open>
  \<^verbatim>\<open>MIDIPort\<close> is an interface: \<open>'p\<close> is the state of the object behind it and the record
  below is its method table. \<^verbatim>\<open>ReadEvents\<close> returns a channel and an error; the channel
  is read by \<^verbatim>\<open>processEvents\<close> only and the model keeps the error.
\<close>

record 'p MIDIPort =
  port_Open :: "string \<Rightarrow> 'p \<Rightarrow> go_error option \<times> 'p"
  port_Close :: "'p \<Rightarrow> go_error option \<times> 'p"
  port_ReadEvents :: "'p \<Rightarrow> go_error option \<times> 'p"
  port_GetPortNames :: "'p \<Rightarrow> (go_error + string list) \<times> 'p"

text \<open>
  The \<^verbatim>\<open>Handler\<close> struct. \<open>port\<close> is \<^term>\<open>None\<close> for a \<^verbatim>\<open>nil\<close> interface. Of the two
  channels the model keeps whether each has been closed (nothing is ever sent on them);
  the logger is the effect list; the mutex guards the test and the update of
  \<open>isRunning\<close>, which are atomic steps here.
\<close>

record ('v, 'w, 'p) Handler =
  config :: "'v Config"
  actionMgr :: "('v, 'w) Manager"
  port :: "'p option"
  eventChan_closed :: bool
  done_closed :: bool
  isRunning :: bool

text \<open>How a call ends: it returns, it panics, or it blocks forever.\<close>

datatype 'a outcome = Returned 'a | Panicked string | Blocked

text \<open>
  \<^verbatim>\<open>time.Duration(ActionDelay) * time.Millisecond\<close>: a product of two \<^verbatim>\<open>int64\<close>, in
  nanoseconds, which wraps around.
\<close>

definition Duration_ms :: "int \<Rightarrow> int" where
  "Duration_ms d = sint (word_of_int (d * 1000000) :: 64 word)"

text \<open>
  The loop of \<^verbatim>\<open>handleEvent\<close> over \<^verbatim>\<open>h.config.Mappings\<close>, from the mapping it has reached.
\<close>

fun handleEvent_loop ::
  "('v, 'w, 'p) Handler \<Rightarrow> MIDIEvent \<Rightarrow> 'v Mapping list \<Rightarrow> 'v effect list" where
  "handleEvent_loop h event [] = []"
| "handleEvent_loop h event (mapping # rest) =
     (if \<not> Enabled mapping then handleEvent_loop h event rest
      else if matchesMapping event (Event mapping) then
        [Log LevelInfo ''Mapping gefunden'' [(''name'', VString (Name mapping))],
         GoExecute mapping]
        @ (if ActionDelay (General (config h)) > 0
           then [Sleep (Duration_ms (ActionDelay (General (config h))))] else [])
        @ handleEvent_loop h event rest
      else handleEvent_loop h event rest)"

definition handleEvent :: "('v, 'w, 'p) Handler \<Rightarrow> MIDIEvent \<Rightarrow> 'v effect list" where
  "handleEvent h event =
     (if Channel (MIDI (config h)) \<noteq> - 1
         \<and> ev_Channel event \<noteq> Channel (MIDI (config h)) then []
      else
        Log LevelDebug ''MIDI-Event empfangen''
          [(''type'', VString (ev_Type event)),
           (''channel'', VInt (ev_Channel event)),
           (''note'', VInt (ev_Note event)),
           (''controller'', VInt (ev_Controller event)),
           (''velocity'', VInt (ev_Velocity event)),
           (''value'', VInt (ev_Value event))]
        # handleEvent_loop h event (Mappings (config h)))"

text \<open>
  The body of the goroutine that \<^verbatim>\<open>handleEvent\<close> launches for a mapping: one call of
  \<^verbatim>\<open>h.actionMgr.Execute(m.Action)\<close>, and an error record when it fails. The result is the
  platform state the call leaves and the effects of the goroutine: the call, what the
  manager does in it, and the error record.
\<close>

definition handleEvent_go ::
  "('v, 'w, 'p) Handler \<Rightarrow> 'v Mapping \<Rightarrow> 'w \<Rightarrow> 'w \<times> 'v effect list" where
  "handleEvent_go h m w =
     (case Execute (actionMgr h) (Action m) w of
        (Some err, w', t) \<Rightarrow>
          (w', ManagerExecute (Action m) # t
               @ [Log LevelError (''Fehler beim Ausf'' @ uuml @ ''hren der Aktion'')
                    [(''mapping'', VString (Name m)),
                     (''action'', VString (act_Type (Action m))),
                     (''error'', VError err)]])
      | (None, w', t) \<Rightarrow> (w', ManagerExecute (Action m) # t))"

text \<open>The goroutines launched in an effect list, in launch order.\<close>

fun launched :: "'v effect list \<Rightarrow> 'v Mapping list" where
  "launched [] = []"
| "launched (GoExecute m # t) = m # launched t"
| "launched (_ # t) = launched t"

text \<open>The calls of \<^verbatim>\<open>h.actionMgr.Execute\<close> in an effect list: their actions, in order.\<close>

fun execute_calls :: "'v effect list \<Rightarrow> 'v Action list" where
  "execute_calls [] = []"
| "execute_calls (ManagerExecute a # t) = a # execute_calls t"
| "execute_calls (_ # t) = execute_calls t"

text \<open>
  The goroutines of a list of mappings, each run to its end, one after the other in the
  order of the list, on the platform state the one before has left. The Go scheduler is
  free to start the launched goroutines in any order, so a schedule is any permutation of
  the launches.
\<close>

fun run_launched ::
  "('v, 'w, 'p) Handler \<Rightarrow> 'v Mapping list \<Rightarrow> 'w \<Rightarrow> 'w \<times> 'v effect list" where
  "run_launched h [] w = (w, [])"
| "run_launched h (m # ms) w =
     (case handleEvent_go h m w of
        (w', t) \<Rightarrow> (case run_launched h ms w' of (w'', t') \<Rightarrow> (w'', t @ t')))"

text \<open>
  Lines 87 to 99 of \<^verbatim>\<open>Start\<close>: the port name, from the configuration or else the first
  name the port lists.
\<close>

definition Start_portName ::
  "'p MIDIPort \<Rightarrow> string \<Rightarrow> 'p \<Rightarrow> (go_error + string) \<times> 'p \<times> 'v effect list" where
  "Start_portName ops portName p =
     (if portName = [] then
        (case port_GetPortNames ops p of
           (Inl err, p') \<Rightarrow>
             (Inl (Errorf_w ''fehler beim Abrufen der MIDI-Ports: '' err), p',
              [PortGetPortNames])
         | (Inr ports, p') \<Rightarrow>
             (case ports of
                [] \<Rightarrow>
                  (Inl (GoError (''keine MIDI-Ports verf'' @ uuml @ ''gbar'') None), p',
                   [PortGetPortNames])
              | first # _ \<Rightarrow>
                  (Inr first, p',
                   [PortGetPortNames,
                    Log LevelInfo (''Verwende ersten verf'' @ uuml @ ''gbaren MIDI-Port'')
                      [(''port'', VString first)]])))
      else (Inr portName, p, []))"

text \<open>
  \<^verbatim>\<open>Start\<close>. The argument \<open>ctx\<close> says whether the context is cancelled at some time:
  if it never is, the call blocks at \<^verbatim>\<open><-ctx.Done()\<close>. A \<^verbatim>\<open>nil\<close> port makes the first
  method call on it panic; both places where that can be (\<^verbatim>\<open>GetPortNames\<close>, \<^verbatim>\<open>Open\<close>)
  come after the same effects.
\<close>

definition Start ::
  "'p MIDIPort \<Rightarrow> bool \<Rightarrow> ('v, 'w, 'p) Handler
     \<Rightarrow> go_error option outcome \<times> ('v, 'w, 'p) Handler \<times> 'v effect list" where
  "Start ops ctx h0 =
     (if isRunning h0 then
        (Returned (Some (GoError (''handler l'' @ auml @ ''uft bereits'') None)), h0, [])
      else
        (let h = h0\<lparr>isRunning := True\<rparr>;
             t0 = [Log LevelInfo ''MIDI-Handler wird gestartet'' []]
         in case port h of
              None \<Rightarrow>
                (Panicked (''runtime error: invalid memory address ''
                           @ ''or nil pointer dereference''), h, t0)
            | Some p0 \<Rightarrow>
                (case Start_portName ops (InputPort (MIDI (config h))) p0 of
                   (Inl err, p1, t1) \<Rightarrow>
                     (Returned (Some err), h\<lparr>port := Some p1\<rparr>, t0 @ t1)
                 | (Inr portName, p1, t1) \<Rightarrow>
                     (case port_Open ops portName p1 of
                        (Some err, p2) \<Rightarrow>
                          (Returned (Some (Errorf_w
                              (''fehler beim '' @ Ouml @ ''ffnen des MIDI-Ports ''
                                 @ quoted portName @ '': '') err)),
                           h\<lparr>port := Some p2\<rparr>, t0 @ t1 @ [PortOpen portName])
                      | (None, p2) \<Rightarrow>
                          (let t2 = t0 @ t1 @
                                 [PortOpen portName,
                                  Log LevelInfo (''MIDI-Port ge'' @ ouml @ ''ffnet'')
                                    [(''port'', VString portName)],
                                  PortReadEvents]
                           in case port_ReadEvents ops p2 of
                                (Some err, p3) \<Rightarrow>
                                  (Returned (Some (Errorf_w
                                      ''fehler beim Starten des Event-Streams: '' err)),
                                   h\<lparr>port := Some p3\<rparr>, t2)
                              | (None, p3) \<Rightarrow>
                                  (if ctx then
                                     (Returned None, h\<lparr>port := Some p3\<rparr>,
                                      t2 @ [GoProcessEvents,
                                            Log LevelInfo ''MIDI-Handler wird beendet'' []])
                                   else
                                     (Blocked, h\<lparr>port := Some p3\<rparr>,
                                      t2 @ [GoProcessEvents])))))))"

text \<open>Lines 135 to 139 of \<^verbatim>\<open>Close\<close>: the port is closed, a failure is logged only.\<close>

definition Close_port ::
  "'p MIDIPort \<Rightarrow> 'p option \<Rightarrow> 'p option \<times> 'v effect list" where
  "Close_port ops po =
     (case po of
        None \<Rightarrow> (None, [])
      | Some p \<Rightarrow>
          (case port_Close ops p of
             (Some err, p') \<Rightarrow>
               (Some p',
                [PortClose,
                 Log LevelError (''Fehler beim Schlie'' @ szlig @ ''en des MIDI-Ports'')
                   [(''error'', VError err)]])
           | (None, p') \<Rightarrow> (Some p', [PortClose])))"

text \<open>
  \<^verbatim>\<open>Close\<close>. In Go, \<^verbatim>\<open>close\<close> of a channel that is closed already panics; the deferred
  unlock still runs, and the fields written before the panic keep their values.
\<close>

definition Close ::
  "'p MIDIPort \<Rightarrow> ('v, 'w, 'p) Handler
     \<Rightarrow> go_error option outcome \<times> ('v, 'w, 'p) Handler \<times> 'v effect list" where
  "Close ops h0 =
     (if \<not> isRunning h0 then (Returned None, h0, [])
      else
        (case Close_port ops (port h0) of
           (po, t1) \<Rightarrow>
             (let h = h0\<lparr>port := po\<rparr>;
                  t = Log LevelInfo ''MIDI-Handler wird geschlossen'' [] # t1
              in if done_closed h then (Panicked ''close of closed channel'', h, t)
                 else if eventChan_closed h then
                   (Panicked ''close of closed channel'', h\<lparr>done_closed := True\<rparr>,
                    t @ [CloseChan ''done''])
                 else
                   (Returned None,
                    h\<lparr>done_closed := True, eventChan_closed := True, isRunning := False\<rparr>,
                    t @ [CloseChan ''done'', CloseChan ''eventChan'']))))"

definition IsRunning :: "('v, 'w, 'p) Handler \<Rightarrow> bool" where
  "IsRunning h = isRunning h"

subsection \<open>Loading the configuration (\<^verbatim>\<open>config.go\<close>)\<close>

text \<open>The loop of \<^verbatim>\<open>setDefaults\<close> over the indices of \<^verbatim>\<open>config.Mappings\<close>.\<close>

fun setDefaults_loop :: "'v Mapping list \<Rightarrow> 'v Mapping list" where
  "setDefaults_loop [] = []"
| "setDefaults_loop (m # ms) =
     (if \<not> Enabled m then m\<lparr>Enabled := True\<rparr> else m) # setDefaults_loop ms"

definition setDefaults :: "'v Config \<Rightarrow> 'v Config" where
  "setDefaults config0 =
     (let config1 = (if Channel (MIDI config0) = 0
                     then config0\<lparr>MIDI := (MIDI config0)\<lparr>Channel := - 1\<rparr>\<rparr>
                     else config0);
          config2 = (if Timeout (MIDI config1) = 0
                     then config1\<lparr>MIDI := (MIDI config1)\<lparr>Timeout := 30\<rparr>\<rparr>
                     else config1);
          config3 = (if LogLevel (General config2) = []
                     then config2\<lparr>General := (General config2)\<lparr>LogLevel := ''info''\<rparr>\<rparr>
                     else config2);
          config4 = (if ActionDelay (General config3) = 0
                     then config3\<lparr>General := (General config3)\<lparr>ActionDelay := 100\<rparr>\<rparr>
                     else config3)
      in config4\<lparr>Mappings := setDefaults_loop (Mappings config4)\<rparr>)"

definition range_0_127 :: string where
  "range_0_127 = '' (muss zwischen 0 und 127 liegen)''"

definition validateMIDIEvent :: "config_MIDIEvent \<Rightarrow> go_error option" where
  "validateMIDIEvent event =
     (if cev_Type event = ''note_on'' \<or> cev_Type event = ''note_off'' then
        (if cev_Note event < 0 \<or> cev_Note event > 127 then
           Some (GoError (''ung'' @ uuml @ ''ltige MIDI-Note: '' @ fmt_d (cev_Note event)
                            @ range_0_127) None)
         else if cev_Velocity event < 0 \<or> cev_Velocity event > 127 then
           Some (GoError (''ung'' @ uuml @ ''ltige Velocity: '' @ fmt_d (cev_Velocity event)
                            @ range_0_127) None)
         else None)
      else if cev_Type event = ''control_change'' then
        (if cev_Controller event < 0 \<or> cev_Controller event > 127 then
           Some (GoError (''ung'' @ uuml @ ''ltiger Controller: ''
                            @ fmt_d (cev_Controller event) @ range_0_127) None)
         else if cev_Value event < 0 \<or> cev_Value event > 127 then
           Some (GoError (''ung'' @ uuml @ ''ltiger Controller-Wert: ''
                            @ fmt_d (cev_Value event) @ range_0_127) None)
         else None)
      else if cev_Type event = ''program_change'' then
        (if cev_Program event < 0 \<or> cev_Program event > 127 then
           Some (GoError (''ung'' @ uuml @ ''ltiges Program: '' @ fmt_d (cev_Program event)
                            @ range_0_127) None)
         else None)
      else Some (GoError (''ung'' @ uuml @ ''ltiger Event-Typ: '' @ cev_Type event) None))"

definition validateAction :: "'v Action \<Rightarrow> go_error option" where
  "validateAction action =
     (if act_Type action = ''volume'' then
        (if act_Parameters action ''direction'' = None then
           Some (GoError (''volume-Aktion ben'' @ ouml @ ''tigt 'direction' Parameter'') None)
         else None)
      else if act_Type action = ''app_start'' then
        (if act_Parameters action ''path'' = None then
           Some (GoError (''app_start-Aktion ben'' @ ouml @ ''tigt 'path' Parameter'') None)
         else None)
      else if act_Type action = ''key_combination'' then
        (if act_Parameters action ''keys'' = None then
           Some (GoError (''key_combination-Aktion ben'' @ ouml @ ''tigt 'keys' Parameter'')
                   None)
         else None)
      else if act_Type action = ''audio_source'' then
        (if act_Parameters action ''source'' = None then
           Some (GoError (''audio_source-Aktion ben'' @ ouml @ ''tigt 'source' Parameter'')
                   None)
         else None)
      else Some (GoError (''ung'' @ uuml @ ''ltiger Aktion-Typ: '' @ act_Type action) None))"

definition validateMapping :: "'v Mapping \<Rightarrow> go_error option" where
  "validateMapping mapping =
     (case validateMIDIEvent (Event mapping) of
        Some err \<Rightarrow> Some (Errorf_w (''ung'' @ uuml @ ''ltiges MIDI-Event: '') err)
      | None \<Rightarrow>
          (case validateAction (Action mapping) of
             Some err \<Rightarrow> Some (Errorf_w (''ung'' @ uuml @ ''ltige Aktion: '') err)
           | None \<Rightarrow> None))"

text \<open>The loop of \<^verbatim>\<open>validate\<close> over the mappings, from index \<open>i\<close>.\<close>

fun validate_loop :: "nat \<Rightarrow> 'v Mapping list \<Rightarrow> go_error option" where
  "validate_loop i [] = None"
| "validate_loop i (mapping # rest) =
     (case validateMapping mapping of
        Some err \<Rightarrow>
          Some (Errorf_w (''ung'' @ uuml @ ''ltiges Mapping '' @ fmt_d (int i)
                            @ '' ('' @ Name mapping @ ''): '') err)
      | None \<Rightarrow> validate_loop (Suc i) rest)"

definition validate :: "'v Config \<Rightarrow> go_error option" where
  "validate config0 =
     (if Channel (MIDI config0) < - 1 \<or> Channel (MIDI config0) > 15 then
        Some (GoError (''ung'' @ uuml @ ''ltiger MIDI-Kanal: ''
                         @ fmt_d (Channel (MIDI config0))
                         @ '' (muss zwischen -1 und 15 liegen)'') None)
      else validate_loop 0 (Mappings config0))"

text \<open>
  What \<^verbatim>\<open>Load\<close> meets at its path: \<^verbatim>\<open>filepath.Abs\<close> fails, \<^verbatim>\<open>os.Open\<close> fails, the JSON
  decoder fails, or the decoder fills a \<^verbatim>\<open>Config\<close>, in which a field the file does not
  mention has the zero value of its type.
\<close>

datatype 'v config_file =
  AbsFails go_error
| OpenFails go_error
| DecodeFails go_error
| Decodes "'v Config"

definition Load :: "'v config_file \<Rightarrow> go_error + 'v Config" where
  "Load file =
     (case file of
        AbsFails err \<Rightarrow>
          Inl (Errorf_w (''ung'' @ uuml @ ''ltiger Konfigurationspfad: '') err)
      | OpenFails err \<Rightarrow>
          Inl (Errorf_w (''konnte Konfigurationsdatei nicht '' @ ouml @ ''ffnen: '') err)
      | DecodeFails err \<Rightarrow>
          Inl (Errorf_w ''fehler beim Parsen der Konfigurationsdatei: '' err)
      | Decodes config0 \<Rightarrow>
          (let config1 = setDefaults config0
           in case validate config1 of
                Some err \<Rightarrow> Inl (Errorf_w (''ung'' @ uuml @ ''ltige Konfiguration: '') err)
              | None \<Rightarrow> Inr config1))"

subsection \<open>Concrete instances\<close>

text \<open>
  The port structs of the repository (\<^verbatim>\<open>windowsMIDIPort\<close>, \<^verbatim>\<open>linuxMIDIPort\<close>) keep a name
  and an open flag and list a fixed sequence of port names; \<open>listingMIDIPort\<close> is that
  implementation with the listed names as a parameter.
\<close>

record port_state =
  portName :: string
  isOpen :: bool

definition listingMIDIPort :: "string list \<Rightarrow> port_state MIDIPort" where
  "listingMIDIPort names =
     \<lparr>port_Open = (\<lambda>name p. (None, p\<lparr>portName := name, isOpen := True\<rparr>)),
      port_Close = (\<lambda>p. if \<not> isOpen p then (None, p) else (None, p\<lparr>isOpen := False\<rparr>)),
      port_ReadEvents = (\<lambda>p. if \<not> isOpen p
                              then (Some (GoError (''port ist nicht ge'' @ ouml @ ''ffnet'') None), p)
                              else (None, p)),
      port_GetPortNames = (\<lambda>p. (Inr names, p))\<rparr>"

definition windowsMIDIPort :: "port_state MIDIPort" where
  "windowsMIDIPort =
     listingMIDIPort [''MIDI-Controller'', ''USB-MIDI-Interface'', ''Virtual-MIDI-Port'',
                      ''Microsoft GS Wavetable Synth'']"

text \<open>Events and event definitions of mappings.\<close>

definition cc7 :: "int \<Rightarrow> MIDIEvent" where
  "cc7 v = \<lparr>ev_Type = ''control_change'', ev_Channel = 3, ev_Note = 0, ev_Controller = 7,
             ev_Program = 0, ev_Velocity = 0, ev_Value = v, ev_Timestamp = 0\<rparr>"

definition note60 :: "int \<Rightarrow> MIDIEvent" where
  "note60 v = \<lparr>ev_Type = ''note_on'', ev_Channel = 0, ev_Note = 60, ev_Controller = 0,
                ev_Program = 0, ev_Velocity = v, ev_Value = 0, ev_Timestamp = 0\<rparr>"

definition sysex_event :: MIDIEvent where
  "sysex_event = \<lparr>ev_Type = ''sysex'', ev_Channel = 0, ev_Note = 0, ev_Controller = 0,
                   ev_Program = 0, ev_Velocity = 0, ev_Value = 0, ev_Timestamp = 0\<rparr>"

definition on_cc7 :: "int \<Rightarrow> config_MIDIEvent" where
  "on_cc7 v = \<lparr>cev_Type = ''control_change'', cev_Note = 0, cev_Controller = 7,
                cev_Program = 0, cev_Velocity = 0, cev_Value = v\<rparr>"

definition on_note60 :: "int \<Rightarrow> config_MIDIEvent" where
  "on_note60 v = \<lparr>cev_Type = ''note_on'', cev_Note = 60, cev_Controller = 0,
                   cev_Program = 0, cev_Velocity = v, cev_Value = 0\<rparr>"

definition on_sysex :: config_MIDIEvent where
  "on_sysex = \<lparr>cev_Type = ''sysex'', cev_Note = 0, cev_Controller = 0,
                cev_Program = 0, cev_Velocity = 0, cev_Value = 0\<rparr>"

text \<open>An action, mappings with it, and a configuration around a list of mappings.\<close>

definition volume_up :: "string Action" where
  "volume_up = \<lparr>act_Type = ''volume'',
                 act_Parameters = [''direction'' \<mapsto> ''up'', ''percent'' \<mapsto> ''5'']\<rparr>"

definition volume_mapping :: "string \<Rightarrow> int \<Rightarrow> bool \<Rightarrow> string Mapping" where
  "volume_mapping n v en = \<lparr>Name = n, Event = on_cc7 v, Action = volume_up, Enabled = en\<rparr>"

definition config_with :: "int \<Rightarrow> string Mapping list \<Rightarrow> string Config" where
  "config_with ch ms =
     \<lparr>MIDI = \<lparr>InputPort = [], Channel = ch, Timeout = 30\<rparr>,
      Mappings = ms,
      General = \<lparr>LogLevel = ''info'', AutoRestart = False, ActionDelay = 100\<rparr>\<rparr>"

text \<open>
  Two executors over a platform that counts the calls it has served: one succeeds, one
  fails with a fixed error. Neither implements \<^verbatim>\<open>ActionValidator\<close>.
\<close>

definition counting_executor :: "string \<Rightarrow> (string, nat) Executor" where
  "counting_executor n =
     \<lparr>exec_GetName = n, exec_Execute = (\<lambda>a w. (None, Suc w)), exec_Validate = None\<rparr>"

definition failing_executor :: "string \<Rightarrow> (string, nat) Executor" where
  "failing_executor n =
     \<lparr>exec_GetName = n,
      exec_Execute = (\<lambda>a w. (Some (GoError ''device busy'' None), Suc w)),
      exec_Validate = None\<rparr>"

definition two_executors :: "(string, nat) Manager" where
  "two_executors =
     registerExecutor
       (registerExecutor \<lparr>executors = Map.empty\<rparr> (counting_executor ''volume''))
       (failing_executor ''app_start'')"

text \<open>A handler as \<^verbatim>\<open>NewHandler\<close> builds it, with the running flag as a parameter.\<close>

definition handler_with ::
  "string Config \<Rightarrow> bool \<Rightarrow> (string, nat, port_state) Handler" where
  "handler_with cfg running =
     \<lparr>config = cfg, actionMgr = two_executors,
      port = Some \<lparr>portName = [], isOpen = False\<rparr>,
      eventChan_closed = False, done_closed = False, isRunning = running\<rparr>"

text \<open>An action of a type no executor is registered for, and one for the failing executor.\<close>

definition unknown_action :: "string Action" where
  "unknown_action = \<lparr>act_Type = ''unknown_type'', act_Parameters = Map.empty\<rparr>"

definition start_app :: "string Action" where
  "start_app = \<lparr>act_Type = ''app_start'', act_Parameters = [''path'' \<mapsto> ''/bin/true'']\<rparr>"

section \<open>Properties\<close>

subsection \<open>The matcher\<close>

text \<open>
  C3. For a note-on or note-off event \<open>E\<close> and an event definition \<open>F\<close> of the same type
  and the same note: when the velocity of \<open>F\<close> is 0, \<open>E\<close> matches whatever its velocity;
  when it is positive, \<open>E\<close> fails to match exactly when its velocity is below that of
  \<open>F\<close> and matches exactly when it is at least that of \<open>F\<close>. The same holds for a
  control-change event of the same controller, with the value in place of the velocity.
\<close>

theorem matchesMapping_threshold:
  "(ev_Type E = cev_Type F \<and> (ev_Type E = ''note_on'' \<or> ev_Type E = ''note_off'')
      \<and> ev_Note E = cev_Note F \<longrightarrow>
      (cev_Velocity F = 0 \<longrightarrow> matchesMapping E F) \<and>
      (cev_Velocity F > 0 \<longrightarrow>
         (\<not> matchesMapping E F \<longleftrightarrow> ev_Velocity E < cev_Velocity F) \<and>
         (matchesMapping E F \<longleftrightarrow> ev_Velocity E \<ge> cev_Velocity F)))
   \<and> (ev_Type E = cev_Type F \<and> ev_Type E = ''control_change''
      \<and> ev_Controller E = cev_Controller F \<longrightarrow>
      (cev_Value F = 0 \<longrightarrow> matchesMapping E F) \<and>
      (cev_Value F > 0 \<longrightarrow>
         (\<not> matchesMapping E F \<longleftrightarrow> ev_Value E < cev_Value F) \<and>
         (matchesMapping E F \<longleftrightarrow> ev_Value E \<ge> cev_Value F)))"
  by (auto simp: matchesMapping_def)

theorem matchesMapping_threshold_witness:
  "matchesMapping (note60 1) (on_note60 0)
   \<and> matchesMapping (note60 64) (on_note60 64)
   \<and> \<not> matchesMapping (note60 63) (on_note60 64)
   \<and> matchesMapping (cc7 90) (on_cc7 64)
   \<and> \<not> matchesMapping (cc7 30) (on_cc7 64)"
  using matchesMapping_threshold [of "note60 1" "on_note60 0"]
    matchesMapping_threshold [of "note60 64" "on_note60 64"]
    matchesMapping_threshold [of "note60 63" "on_note60 64"]
    matchesMapping_threshold [of "cc7 90" "on_cc7 64"]
    matchesMapping_threshold [of "cc7 30" "on_cc7 64"]
  by (simp add: note60_def on_note60_def cc7_def on_cc7_def)

text \<open>
  C4, as stated: an event definition whose type is none of \<^verbatim>\<open>note_on\<close>, \<^verbatim>\<open>note_off\<close>,
  \<^verbatim>\<open>control_change\<close>, \<^verbatim>\<open>program_change\<close> matches no event, not even one that carries the
  same type string. The \<^verbatim>\<open>switch\<close> of \<^verbatim>\<open>matchesMapping\<close> has no \<^verbatim>\<open>default\<close>: an event of
  type \<^verbatim>\<open>sysex\<close> matches an event definition of type \<^verbatim>\<open>sysex\<close>.
\<close>

theorem matchesMapping_unknown_type_counterexample:
  "cev_Type on_sysex \<notin> {''note_on'', ''note_off'', ''control_change'', ''program_change''}
   \<and> matchesMapping sysex_event on_sysex"
  by (simp add: matchesMapping_def sysex_event_def on_sysex_def)

text \<open>
  C4, amended: for an event definition \<open>F\<close> whose type is none of the four, an event
  matches exactly when it carries the same type string, so it never matches an event of
  another type; it is \<^verbatim>\<open>validateMIDIEvent\<close>, run by \<^verbatim>\<open>Load\<close>, that rejects such an event
  definition.
\<close>

theorem matchesMapping_unknown_type:
  "cev_Type F \<notin> {''note_on'', ''note_off'', ''control_change'', ''program_change''} \<Longrightarrow>
     (matchesMapping E F \<longleftrightarrow> ev_Type E = cev_Type F) \<and> validateMIDIEvent F \<noteq> None"
  by (auto simp: matchesMapping_def validateMIDIEvent_def)

theorem matchesMapping_unknown_type_witness:
  "cev_Type on_sysex \<notin> {''note_on'', ''note_off'', ''control_change'', ''program_change''}
   \<and> matchesMapping sysex_event on_sysex
   \<and> \<not> matchesMapping (note60 1) on_sysex
   \<and> validateMIDIEvent on_sysex \<noteq> None"
  using matchesMapping_unknown_type [of on_sysex sysex_event]
    matchesMapping_unknown_type [of on_sysex "note60 1"]
  by (simp add: sysex_event_def on_sysex_def note60_def)

subsection \<open>The per-event dispatch\<close>

lemma launched_append: "launched (xs @ ys) = launched xs @ launched ys"
  by (induction xs rule: launched.induct) simp_all

lemma launched_loop:
  "launched (handleEvent_loop h e ms) = filter (\<lambda>m. Enabled m \<and> matchesMapping e (Event m)) ms"
  by (induction ms) (simp_all add: launched_append)

lemma loop_nil:
  "filter (\<lambda>m. Enabled m \<and> matchesMapping e (Event m)) ms = [] \<Longrightarrow> handleEvent_loop h e ms = []"
  by (induction ms) (auto split: if_splits)

lemma matches_channel: "matchesMapping (e\<lparr>ev_Channel := c\<rparr>) f = matchesMapping e f"
  by (simp add: matchesMapping_def)

lemma loop_channel: "handleEvent_loop h (e\<lparr>ev_Channel := c\<rparr>) ms = handleEvent_loop h e ms"
  by (induction ms) (simp_all add: matches_channel)

lemma execute_calls_append: "execute_calls (xs @ ys) = execute_calls xs @ execute_calls ys"
  by (induction xs rule: execute_calls.induct) simp_all

lemma executor_calls_append: "executor_calls (xs @ ys) = executor_calls xs @ executor_calls ys"
  by (induction xs rule: executor_calls.induct) simp_all

lemma execute_calls_Execute: "execute_calls (snd (snd (Execute mgr a w))) = []"
  by (simp add: Execute_def Let_def split: option.splits prod.splits)

lemma execute_calls_loop: "execute_calls (handleEvent_loop h e ms) = []"
  by (induction ms) (simp_all add: execute_calls_append)

lemma execute_calls_handleEvent: "execute_calls (handleEvent h e) = []"
  by (simp add: handleEvent_def execute_calls_loop)

lemma handleEvent_go_calls:
  "fst (handleEvent_go h m w) = fst (snd (Execute (actionMgr h) (Action m) w))
   \<and> execute_calls (snd (handleEvent_go h m w)) = [Action m]
   \<and> executor_calls (snd (handleEvent_go h m w))
       = executor_calls (snd (snd (Execute (actionMgr h) (Action m) w)))"
proof (cases "Execute (actionMgr h) (Action m) w")
  case (fields r w' t)
  have "execute_calls t = []"
    using execute_calls_Execute [of "actionMgr h" "Action m" w] fields by simp
  then show ?thesis
    using fields
    by (cases r) (simp_all add: handleEvent_go_def execute_calls_append executor_calls_append)
qed

lemma execute_calls_run_launched:
  "execute_calls (snd (run_launched h ms w)) = map Action ms"
proof (induction ms arbitrary: w)
  case Nil
  show ?case by simp
next
  case (Cons m ms)
  obtain w' t where g: "handleEvent_go h m w = (w', t)"
    by (cases "handleEvent_go h m w")
  have c: "execute_calls t = [Action m]"
    using handleEvent_go_calls [of h m w] g by simp
  obtain w'' t' where r: "run_launched h ms w' = (w'', t')"
    by (cases "run_launched h ms w'")
  have "execute_calls t' = map Action ms"
    using Cons.IH [of w'] r by simp
  then show ?case
    using g r c by (simp add: execute_calls_append)
qed

lemma two_executors_volume:
  "executors two_executors ''volume'' = Some (counting_executor ''volume'')"
  by (simp add: two_executors_def registerExecutor_def counting_executor_def
      failing_executor_def)

lemma handleEvent_go_volume:
  "fst (handleEvent_go (handler_with cfg r) (volume_mapping n v en) w) = Suc w"
  "executor_calls (snd (handleEvent_go (handler_with cfg r) (volume_mapping n v en) w))
     = [(''volume'', volume_up)]"
proof -
  have a: "actionMgr (handler_with cfg r) = two_executors"
    "Action (volume_mapping n v en) = volume_up"
    "act_Type volume_up = ''volume''"
    by (simp_all add: handler_with_def volume_mapping_def volume_up_def)
  have x: "exec_Execute (counting_executor ''volume'') volume_up w = (None, Suc w)"
    "exec_GetName (counting_executor ''volume'') = ''volume''"
    by (simp_all add: counting_executor_def)
  show "fst (handleEvent_go (handler_with cfg r) (volume_mapping n v en) w) = Suc w"
    by (simp add: handleEvent_go_def Execute_def a x two_executors_volume)
  show "executor_calls (snd (handleEvent_go (handler_with cfg r) (volume_mapping n v en) w))
     = [(''volume'', volume_up)]"
    by (simp add: handleEvent_go_def Execute_def a x two_executors_volume)
qed

lemma fst_run_launched_Nil: "fst (run_launched h [] w) = w"
  by simp

lemma fst_run_launched_Cons:
  "fst (run_launched h (m # ms) w) = fst (run_launched h ms (fst (handleEvent_go h m w)))"
  by (simp split: prod.splits)

text \<open>
  C1. For an event that passes the channel filter, \<^verbatim>\<open>handleEvent\<close> launches one goroutine
  for each enabled mapping whose event definition matches, in the order of the
  configuration and for no other mapping: the launches are the enabled matching mappings,
  so their number is the number of those; no launched mapping is disabled; and when no
  enabled mapping matches, nothing follows the debug record of the event (no launch, no
  error record). \<^verbatim>\<open>handleEvent\<close> itself calls \<^verbatim>\<open>h.actionMgr.Execute\<close> nowhere; each goroutine
  calls it exactly once, on the action of its mapping, leaves the platform as that call
  of \<open>Execute\<close> leaves it, and makes the executor calls of that call and no other. So,
  whatever the order in which the launched goroutines run, the calls of
  \<^verbatim>\<open>h.actionMgr.Execute\<close> are the actions of the enabled matching mappings, one call for
  each: N such mappings give exactly N calls.
\<close>

theorem handleEvent_fanout:
  assumes "Channel (MIDI (config h)) = - 1 \<or> ev_Channel e = Channel (MIDI (config h))"
  shows "launched (handleEvent h e)
           = filter (\<lambda>m. Enabled m \<and> matchesMapping e (Event m)) (Mappings (config h))
         \<and> length (launched (handleEvent h e))
           = length (filter (\<lambda>m. Enabled m \<and> matchesMapping e (Event m)) (Mappings (config h)))
         \<and> (\<forall>m \<in> set (launched (handleEvent h e)). Enabled m)
         \<and> (filter (\<lambda>m. Enabled m \<and> matchesMapping e (Event m)) (Mappings (config h)) = []
              \<longrightarrow> tl (handleEvent h e) = [])
         \<and> execute_calls (handleEvent h e) = []
         \<and> (\<forall>m w. fst (handleEvent_go h m w) = fst (snd (Execute (actionMgr h) (Action m) w))
                \<and> execute_calls (snd (handleEvent_go h m w)) = [Action m]
                \<and> executor_calls (snd (handleEvent_go h m w))
                    = executor_calls (snd (snd (Execute (actionMgr h) (Action m) w))))
         \<and> (\<forall>w. execute_calls (snd (run_launched h (launched (handleEvent h e)) w))
                = map Action (filter (\<lambda>m. Enabled m \<and> matchesMapping e (Event m))
                                (Mappings (config h))))
         \<and> (\<forall>sched w. mset sched = mset (launched (handleEvent h e)) \<longrightarrow>
                mset (execute_calls (snd (run_launched h sched w)))
                  = mset (map Action (filter (\<lambda>m. Enabled m \<and> matchesMapping e (Event m))
                                        (Mappings (config h))))
                \<and> length (execute_calls (snd (run_launched h sched w)))
                  = length (filter (\<lambda>m. Enabled m \<and> matchesMapping e (Event m))
                              (Mappings (config h))))"
proof -
  let ?M = "filter (\<lambda>m. Enabled m \<and> matchesMapping e (Event m)) (Mappings (config h))"
  have l: "launched (handleEvent h e) = ?M"
    using assms by (auto simp: handleEvent_def launched_loop)
  have t: "tl (handleEvent h e) = handleEvent_loop h e (Mappings (config h))"
    using assms by (auto simp: handleEvent_def)
  have n: "?M = [] \<longrightarrow> tl (handleEvent h e) = []"
    using t by (simp add: loop_nil)
  have en: "\<forall>m \<in> set (launched (handleEvent h e)). Enabled m"
    using l by simp
  have s: "\<forall>sched w. mset sched = mset (launched (handleEvent h e)) \<longrightarrow>
                mset (execute_calls (snd (run_launched h sched w))) = mset (map Action ?M)
                \<and> length (execute_calls (snd (run_launched h sched w))) = length ?M"
  proof (intro allI impI)
    fix sched :: "'a Mapping list" and w :: 'b
    assume p: "mset sched = mset (launched (handleEvent h e))"
    have 1: "mset (map Action sched) = mset (map Action ?M)"
      using p l by (metis mset_map)
    have 2: "length sched = length ?M"
      using p l by (metis mset_eq_length)
    show "mset (execute_calls (snd (run_launched h sched w))) = mset (map Action ?M)
          \<and> length (execute_calls (snd (run_launched h sched w))) = length ?M"
      using 1 2 by (simp add: execute_calls_run_launched)
  qed
  have g: "\<forall>m w. fst (handleEvent_go h m w) = fst (snd (Execute (actionMgr h) (Action m) w))
                \<and> execute_calls (snd (handleEvent_go h m w)) = [Action m]
                \<and> executor_calls (snd (handleEvent_go h m w))
                    = executor_calls (snd (snd (Execute (actionMgr h) (Action m) w)))"
    by (intro allI) (rule handleEvent_go_calls)
  have r: "\<forall>w. execute_calls (snd (run_launched h (launched (handleEvent h e)) w))
                = map Action ?M"
    using l by (simp add: execute_calls_run_launched)
  have len: "length (launched (handleEvent h e)) = length ?M"
    using l by simp
  have c0: "execute_calls (handleEvent h e) = []"
    by (rule execute_calls_handleEvent)
  from l len en n c0 g r s show ?thesis
    by (intro conjI)
qed

theorem handleEvent_fanout_witness:
  "launched (handleEvent
      (handler_with (config_with (- 1)
         [volume_mapping ''a'' 64 True, volume_mapping ''b'' 64 False,
          volume_mapping ''c'' 1 True, volume_mapping ''d'' 100 True]) True) (cc7 90))
     = [volume_mapping ''a'' 64 True, volume_mapping ''c'' 1 True]
   \<and> tl (handleEvent
      (handler_with (config_with 3
         [volume_mapping ''a'' 64 True, volume_mapping ''b'' 10 False]) True) (cc7 30)) = []
   \<and> execute_calls (snd (run_launched
        (handler_with (config_with (- 1)
           [volume_mapping ''a'' 64 True, volume_mapping ''b'' 64 False,
            volume_mapping ''c'' 1 True, volume_mapping ''d'' 100 True]) True)
        [volume_mapping ''a'' 64 True, volume_mapping ''c'' 1 True] 0))
     = [volume_up, volume_up]
   \<and> length (execute_calls (snd (run_launched
        (handler_with (config_with (- 1)
           [volume_mapping ''a'' 64 True, volume_mapping ''b'' 64 False,
            volume_mapping ''c'' 1 True, volume_mapping ''d'' 100 True]) True)
        [volume_mapping ''c'' 1 True, volume_mapping ''a'' 64 True] 0))) = 2
   \<and> fst (run_launched
        (handler_with (config_with (- 1)
           [volume_mapping ''a'' 64 True, volume_mapping ''b'' 64 False,
            volume_mapping ''c'' 1 True, volume_mapping ''d'' 100 True]) True)
        [volume_mapping ''a'' 64 True, volume_mapping ''c'' 1 True] 0) = 2"
proof -
  let ?ms = "[volume_mapping ''a'' 64 True, volume_mapping ''b'' 64 False,
              volume_mapping ''c'' 1 True, volume_mapping ''d'' 100 True]"
  let ?h = "handler_with (config_with (- 1) ?ms) True"
  let ?h3 = "handler_with (config_with 3
               [volume_mapping ''a'' 64 True, volume_mapping ''b'' 10 False]) True"
  let ?L = "[volume_mapping ''a'' 64 True, volume_mapping ''c'' 1 True]"
  have A: "Channel (MIDI (config ?h)) = - 1 \<or> ev_Channel (cc7 90) = Channel (MIDI (config ?h))"
    by (simp add: handler_with_def config_with_def)
  have A3: "Channel (MIDI (config ?h3)) = - 1
            \<or> ev_Channel (cc7 30) = Channel (MIDI (config ?h3))"
    by (simp add: handler_with_def config_with_def cc7_def)
  have F: "filter (\<lambda>m. Enabled m \<and> matchesMapping (cc7 90) (Event m)) (Mappings (config ?h))
             = ?L"
    by (simp add: handler_with_def config_with_def volume_mapping_def cc7_def on_cc7_def
        matchesMapping_def)
  have F3: "filter (\<lambda>m. Enabled m \<and> matchesMapping (cc7 30) (Event m)) (Mappings (config ?h3))
             = []"
    by (simp add: handler_with_def config_with_def volume_mapping_def cc7_def on_cc7_def
        matchesMapping_def)
  note T = handleEvent_fanout [OF A]
  note T3 = handleEvent_fanout [OF A3]
  have l: "launched (handleEvent ?h (cc7 90)) = ?L"
    using T [THEN conjunct1] by (simp only: F)
  have n: "tl (handleEvent ?h3 (cc7 30)) = []"
    using T3 [THEN conjunct2, THEN conjunct2, THEN conjunct2, THEN conjunct1]
    by (simp only: F3 simp_thms)
  have r0: "execute_calls (snd (run_launched ?h (launched (handleEvent ?h (cc7 90))) 0))
              = map Action ?L"
    using T [THEN conjunct2, THEN conjunct2, THEN conjunct2, THEN conjunct2, THEN conjunct2,
        THEN conjunct2, THEN conjunct1, THEN spec, of 0]
    by (simp only: F)
  have r: "execute_calls (snd (run_launched ?h ?L 0)) = [volume_up, volume_up]"
    using r0 by (simp only: l) (simp add: volume_mapping_def)
  have p: "mset [volume_mapping ''c'' 1 True, volume_mapping ''a'' 64 True]
             = mset (launched (handleEvent ?h (cc7 90)))"
    by (simp only: l) simp
  have s: "length (execute_calls (snd (run_launched ?h
             [volume_mapping ''c'' 1 True, volume_mapping ''a'' 64 True] 0))) = 2"
    using T [THEN conjunct2, THEN conjunct2, THEN conjunct2, THEN conjunct2, THEN conjunct2,
        THEN conjunct2, THEN conjunct2, THEN spec, THEN spec, THEN mp, OF p, THEN conjunct2,
        of 0]
    by (simp only: F) simp
  have w: "fst (run_launched ?h ?L 0) = 2"
    by (simp only: fst_run_launched_Cons fst_run_launched_Nil handleEvent_go_volume)
  show ?thesis using l n r s w by (intro conjI)
qed

text \<open>
  C2. When the configured channel is not -1 and differs from the channel of the event,
  \<^verbatim>\<open>handleEvent\<close> does nothing at all, whatever the mappings are. When the configured
  channel is -1, every event is processed, and changing the channel of the event changes
  neither the launches nor anything else that follows the debug record of the event
  (which prints the channel).
\<close>

theorem handleEvent_channel_filter:
  "(Channel (MIDI (config h)) \<noteq> - 1 \<and> ev_Channel e \<noteq> Channel (MIDI (config h))
      \<longrightarrow> handleEvent h e = [])
   \<and> (Channel (MIDI (config h)) = - 1 \<longrightarrow>
        handleEvent h e \<noteq> []
        \<and> tl (handleEvent h (e\<lparr>ev_Channel := c\<rparr>)) = tl (handleEvent h e)
        \<and> launched (handleEvent h (e\<lparr>ev_Channel := c\<rparr>)) = launched (handleEvent h e))"
  by (simp add: handleEvent_def loop_channel)

theorem handleEvent_channel_filter_witness:
  "handleEvent (handler_with (config_with 5 [volume_mapping ''a'' 64 True]) True) (cc7 90) = []
   \<and> launched (handleEvent (handler_with (config_with (- 1) [volume_mapping ''a'' 64 True]) True)
        ((cc7 90)\<lparr>ev_Channel := 9\<rparr>))
     = launched (handleEvent (handler_with (config_with (- 1) [volume_mapping ''a'' 64 True]) True)
        (cc7 90))
   \<and> launched (handleEvent (handler_with (config_with (- 1) [volume_mapping ''a'' 64 True]) True)
        (cc7 90)) = [volume_mapping ''a'' 64 True]"
  using handleEvent_channel_filter
      [of "handler_with (config_with 5 [volume_mapping ''a'' 64 True]) True" "cc7 90"]
    handleEvent_channel_filter
      [of "handler_with (config_with (- 1) [volume_mapping ''a'' 64 True]) True" "cc7 90" 9]
  by (simp add: handler_with_def config_with_def volume_mapping_def cc7_def on_cc7_def
      matchesMapping_def handleEvent_def)

subsection \<open>Start and Close\<close>

text \<open>
  \<^verbatim>\<open>Start\<close> sets the running flag in its locked section, before it touches the port, and
  no later branch resets it.
\<close>

lemma Start_sets_isRunning: "isRunning (fst (snd (Start ops ctx h)))"
  by (simp add: Start_def Let_def split: option.splits prod.splits sum.splits)

lemma Start_when_running:
  "isRunning h \<Longrightarrow>
     Start ops ctx h
       = (Returned (Some (GoError (''handler l'' @ auml @ ''uft bereits'') None)), h, [])"
  by (simp add: Start_def)

text \<open>
  C5 says that a \<^verbatim>\<open>Start\<close> that fails for a transport reason returns the error to its
  caller and leaves \<^verbatim>\<open>IsRunning()\<close> false. The first half holds; the second does not.
  On an idle handler with no configured port name, whose port lists no names, \<^verbatim>\<open>Start\<close>
  returns the error that no MIDI port is available, and afterwards the handler is the
  same handler with the running flag set: \<^verbatim>\<open>IsRunning()\<close> reports true.
\<close>

theorem Start_no_ports_keeps_flag:
  "Start (listingMIDIPort []) True (handler_with (config_with (- 1) []) False)
     = (Returned (Some (GoError (''keine MIDI-Ports verf'' @ uuml @ ''gbar'') None)),
        handler_with (config_with (- 1) []) True,
        [Log LevelInfo ''MIDI-Handler wird gestartet'' [], PortGetPortNames])
   \<and> IsRunning (fst (snd (Start (listingMIDIPort []) True
                              (handler_with (config_with (- 1) []) False))))"
  by (simp add: Start_def Start_portName_def listingMIDIPort_def handler_with_def
      config_with_def IsRunning_def)

text \<open>
  C6. A \<^verbatim>\<open>Start\<close> on a handler whose running flag is set returns the "already running"
  error with no effect at all: no call on the port, no goroutine, no change of the
  handler. Of two calls on the same handler, with no \<^verbatim>\<open>Close\<close> between them, the one
  that takes the lock second meets the flag set by the first (which nothing in \<^verbatim>\<open>Start\<close>
  resets, so it does not matter how far the first call has got) and fails in that way,
  whatever the port and the context; and the first, on an idle handler whose port
  yields a name, opens and gives its stream, returns \<^verbatim>\<open>nil\<close> once the context is
  cancelled.
\<close>

theorem Start_already_running:
  fixes h :: "('v, 'w, 'p) Handler" and t1 :: "'v effect list"
  shows
  "(isRunning h \<longrightarrow>
      Start ops ctx h
        = (Returned (Some (GoError (''handler l'' @ auml @ ''uft bereits'') None)), h, []))
   \<and> Start ops' ctx' (fst (snd (Start ops ctx h)))
        = (Returned (Some (GoError (''handler l'' @ auml @ ''uft bereits'') None)),
           fst (snd (Start ops ctx h)), [])
   \<and> (\<not> isRunning h \<and> port h = Some p
        \<and> Start_portName ops (InputPort (MIDI (config h))) p = (Inr n, p1, t1)
        \<and> port_Open ops n p1 = (None, p2) \<and> port_ReadEvents ops p2 = (None, p3)
      \<longrightarrow> fst (Start ops True h) = Returned None)"
proof (intro conjI impI)
  show "Start ops' ctx' (fst (snd (Start ops ctx h)))
        = (Returned (Some (GoError (''handler l'' @ auml @ ''uft bereits'') None)),
           fst (snd (Start ops ctx h)), [])"
    by (rule Start_when_running) (rule Start_sets_isRunning)
next
  assume "isRunning h"
  then show "Start ops ctx h
        = (Returned (Some (GoError (''handler l'' @ auml @ ''uft bereits'') None)), h, [])"
    by (rule Start_when_running)
next
  assume "\<not> isRunning h \<and> port h = Some p
        \<and> Start_portName ops (InputPort (MIDI (config h))) p = (Inr n, p1, t1)
        \<and> port_Open ops n p1 = (None, p2) \<and> port_ReadEvents ops p2 = (None, p3)"
  then show "fst (Start ops True h) = Returned None"
    by (simp add: Start_def Let_def)
qed

theorem Start_already_running_witness:
  "fst (Start windowsMIDIPort True (handler_with (config_with (- 1) []) False))
     = Returned None
   \<and> fst (Start windowsMIDIPort True
        (fst (snd (Start windowsMIDIPort True (handler_with (config_with (- 1) []) False)))))
     = Returned (Some (GoError (''handler l'' @ auml @ ''uft bereits'') None))
   \<and> snd (snd (Start windowsMIDIPort True (handler_with (config_with (- 1) []) True))) = []"
proof -
  let ?h = "handler_with (config_with (- 1) []) False"
  have pn: "Start_portName windowsMIDIPort (InputPort (MIDI (config ?h)))
              \<lparr>portName = [], isOpen = False\<rparr>
            = (Inr ''MIDI-Controller'', \<lparr>portName = [], isOpen = False\<rparr>,
               [PortGetPortNames,
                Log LevelInfo (''Verwende ersten verf'' @ uuml @ ''gbaren MIDI-Port'')
                  [(''port'', VString ''MIDI-Controller'')] :: string effect])"
    by (simp add: Start_portName_def windowsMIDIPort_def listingMIDIPort_def
        handler_with_def config_with_def)
  have op: "port_Open windowsMIDIPort ''MIDI-Controller'' \<lparr>portName = [], isOpen = False\<rparr>
            = (None, \<lparr>portName = ''MIDI-Controller'', isOpen = True\<rparr>)"
    by (simp add: windowsMIDIPort_def listingMIDIPort_def)
  have re: "port_ReadEvents windowsMIDIPort \<lparr>portName = ''MIDI-Controller'', isOpen = True\<rparr>
            = (None, \<lparr>portName = ''MIDI-Controller'', isOpen = True\<rparr>)"
    by (simp add: windowsMIDIPort_def listingMIDIPort_def)
  have nr: "\<not> isRunning ?h" "port ?h = Some \<lparr>portName = [], isOpen = False\<rparr>"
    by (simp_all add: handler_with_def)
  have r: "isRunning (handler_with (config_with (- 1) []) True)"
    by (simp add: handler_with_def)
  show ?thesis
    using Start_already_running [of ?h windowsMIDIPort True windowsMIDIPort True
        "\<lparr>portName = [], isOpen = False\<rparr>" "''MIDI-Controller''"
        "\<lparr>portName = [], isOpen = False\<rparr>" _
        "\<lparr>portName = ''MIDI-Controller'', isOpen = True\<rparr>"
        "\<lparr>portName = ''MIDI-Controller'', isOpen = True\<rparr>"]
      Start_already_running [of "handler_with (config_with (- 1) []) True"
        windowsMIDIPort True windowsMIDIPort True]
      pn op re nr r
    by simp
qed

lemma Close_returned:
  "Close ops h = (Returned r, h1, t1) \<Longrightarrow> r = None \<and> \<not> isRunning h1"
  by (auto simp: Close_def Let_def split: if_splits prod.splits)

lemma Close_when_idle: "\<not> isRunning h \<Longrightarrow> Close ops h = (Returned None, h, [])"
  by (simp add: Close_def)

text \<open>
  C7. When a \<^verbatim>\<open>Close\<close> on a running handler has returned, it has returned \<^verbatim>\<open>nil\<close>, the
  handler is no longer running, and a further \<^verbatim>\<open>Close\<close> returns \<^verbatim>\<open>nil\<close> with no effect
  (no call on the port, no \<^verbatim>\<open>close\<close> of a channel, no log record) and leaves the handler
  as the first call left it.
\<close>

theorem Close_idempotent:
  "isRunning h \<Longrightarrow> Close ops h = (Returned r, h1, t1) \<Longrightarrow>
     r = None \<and> \<not> IsRunning h1 \<and> Close ops' h1 = (Returned None, h1, [])"
  using Close_returned [of ops h r h1 t1] by (simp add: IsRunning_def Close_when_idle)

theorem Close_idempotent_witness:
  "Close windowsMIDIPort (handler_with (config_with (- 1) []) True)
     = (Returned None,
        (handler_with (config_with (- 1) []) False)
          \<lparr>eventChan_closed := True, done_closed := True\<rparr>,
        [Log LevelInfo ''MIDI-Handler wird geschlossen'' [], PortClose,
         CloseChan ''done'', CloseChan ''eventChan''])
   \<and> Close windowsMIDIPort
       ((handler_with (config_with (- 1) []) False)
          \<lparr>eventChan_closed := True, done_closed := True\<rparr>)
     = (Returned None,
        (handler_with (config_with (- 1) []) False)
          \<lparr>eventChan_closed := True, done_closed := True\<rparr>, [])"
proof -
  have r: "isRunning (handler_with (config_with (- 1) []) True)"
    by (simp add: handler_with_def)
  have c: "Close windowsMIDIPort (handler_with (config_with (- 1) []) True)
     = (Returned None,
        (handler_with (config_with (- 1) []) False)
          \<lparr>eventChan_closed := True, done_closed := True\<rparr>,
        [Log LevelInfo ''MIDI-Handler wird geschlossen'' [], PortClose,
         CloseChan ''done'', CloseChan ''eventChan''])"
    by (simp add: Close_def Close_port_def windowsMIDIPort_def listingMIDIPort_def
        handler_with_def)
  show ?thesis using Close_idempotent [OF r c, of windowsMIDIPort] c by simp
qed

subsection \<open>The action manager\<close>

lemma sublist_mid: "sublist s (a @ s @ b)"
  unfolding sublist_def by blast

lemma sublist_quoted: "sublist s (a @ quoted s @ b)"
  unfolding sublist_def quoted_def
  by (rule exI [of _ "a @ [CHR 0x27]"], rule exI [of _ "[CHR 0x27] @ b"]) simp

lemma sublist_end: "sublist s (a @ s)"
  using sublist_mid [of s a "[]"] by simp

text \<open>
  C8. For an action whose type has no registered executor, \<^verbatim>\<open>Execute\<close> returns an error
  whose message contains the action type, calls no executor and leaves the platform as
  it was, and so does \<^verbatim>\<open>ValidateAction\<close>. For a registered executor whose \<^verbatim>\<open>Execute\<close>
  fails, \<^verbatim>\<open>Execute\<close> returns an error that wraps the executor's error (\<^verbatim>\<open>Unwrap\<close> gives it
  back and its message ends the message) and whose message contains the action type,
  after exactly one call of that executor.
\<close>

theorem Execute_unregistered_or_failing:
  "(executors m (act_Type a) = None \<longrightarrow>
      (\<exists>e. Execute m a w = (Some e, w, []) \<and> sublist (act_Type a) (Error e))
      \<and> (\<exists>e. ValidateAction m a w = (Some e, w, []) \<and> sublist (act_Type a) (Error e)))
   \<and> (executors m (act_Type a) = Some ex \<and> exec_Execute ex a w = (Some err, w') \<longrightarrow>
        (\<exists>e. fst (Execute m a w) = Some e \<and> Unwrap e = Some err
              \<and> sublist (act_Type a) (Error e) \<and> suffix (Error err) (Error e))
        \<and> fst (snd (Execute m a w)) = w'
        \<and> executor_calls (snd (snd (Execute m a w))) = [(exec_GetName ex, a)])"
proof (intro conjI impI)
  assume n: "executors m (act_Type a) = None"
  show "\<exists>e. Execute m a w = (Some e, w, []) \<and> sublist (act_Type a) (Error e)"
    using n sublist_quoted [of "act_Type a" "''kein Executor f'' @ uuml @ ''r Aktion-Typ ''"
        "'' gefunden''"]
    by (simp add: Execute_def)
  show "\<exists>e. ValidateAction m a w = (Some e, w, []) \<and> sublist (act_Type a) (Error e)"
    using n sublist_end [of "act_Type a" "''ung'' @ uuml @ ''ltiger Aktion-Typ: ''"]
    by (simp add: ValidateAction_def GetExecutor_def)
next
  assume s: "executors m (act_Type a) = Some ex \<and> exec_Execute ex a w = (Some err, w')"
  have q: "sublist (act_Type a)
             ((''fehler beim Ausf'' @ uuml @ ''hren der Aktion '' @ quoted (act_Type a) @ '': '')
              @ Error err)"
    using sublist_quoted [of "act_Type a" "''fehler beim Ausf'' @ uuml @ ''hren der Aktion ''"
        "'': '' @ Error err"] by simp
  show "\<exists>e. fst (Execute m a w) = Some e \<and> Unwrap e = Some err
              \<and> sublist (act_Type a) (Error e) \<and> suffix (Error err) (Error e)"
    using s q by (simp add: Execute_def Errorf_w_def suffix_def)
  show "fst (snd (Execute m a w)) = w'"
    using s by (simp add: Execute_def)
  show "executor_calls (snd (snd (Execute m a w))) = [(exec_GetName ex, a)]"
    using s by (simp add: Execute_def)
qed

theorem Execute_unregistered_or_failing_witness:
  "Execute two_executors unknown_action 0
     = (Some (GoError (''kein Executor f'' @ uuml @ ''r Aktion-Typ 'unknown_type' gefunden'')
                None), 0, [])
   \<and> ValidateAction two_executors unknown_action 0
     = (Some (GoError (''ung'' @ uuml @ ''ltiger Aktion-Typ: unknown_type'') None), 0, [])
   \<and> fst (Execute two_executors start_app 0)
     = Some (GoError (''fehler beim Ausf'' @ uuml @ ''hren der Aktion 'app_start': device busy'')
               (Some (GoError ''device busy'' None)))
   \<and> executor_calls (snd (snd (Execute two_executors start_app 0)))
     = [(''app_start'', start_app)]"
proof -
  have n: "executors two_executors (act_Type unknown_action) = None"
    by (simp add: two_executors_def registerExecutor_def counting_executor_def
        failing_executor_def unknown_action_def)
  have s: "executors two_executors (act_Type start_app) = Some (failing_executor ''app_start'')"
    by (simp add: two_executors_def registerExecutor_def counting_executor_def
        failing_executor_def start_app_def)
  have f: "exec_Execute (failing_executor ''app_start'') start_app 0
             = (Some (GoError ''device busy'' None), Suc 0)"
    by (simp add: failing_executor_def)
  have g: "exec_GetName (failing_executor ''app_start'') = ''app_start''"
    by (simp add: failing_executor_def)
  have e1: "Execute two_executors unknown_action 0
     = (Some (GoError (''kein Executor f'' @ uuml @ ''r Aktion-Typ 'unknown_type' gefunden'')
                None), 0, [])"
    using n by (simp add: Execute_def quoted_def) (simp add: unknown_action_def)
  have e2: "ValidateAction two_executors unknown_action 0
     = (Some (GoError (''ung'' @ uuml @ ''ltiger Aktion-Typ: unknown_type'') None), 0, [])"
    using n by (simp add: ValidateAction_def GetExecutor_def) (simp add: unknown_action_def)
  have e3: "fst (Execute two_executors start_app 0)
     = Some (GoError (''fehler beim Ausf'' @ uuml @ ''hren der Aktion 'app_start': device busy'')
               (Some (GoError ''device busy'' None)))"
    using s f by (simp add: Execute_def quoted_def Errorf_w_def) (simp add: start_app_def)
  show ?thesis
    using Execute_unregistered_or_failing [of two_executors unknown_action 0]
      Execute_unregistered_or_failing [of two_executors start_app 0
        "failing_executor ''app_start''" "GoError ''device busy'' None" "Suc 0"]
      n s f g e1 e2 e3
    by simp
qed

subsection \<open>Loading the configuration\<close>

lemma setDefaults_loop_map: "setDefaults_loop ms = map (\<lambda>m. m\<lparr>Enabled := True\<rparr>) ms"
  by (induction ms) simp_all

lemma Mappings_setDefaults:
  "Mappings (setDefaults c) = map (\<lambda>m. m\<lparr>Enabled := True\<rparr>) (Mappings c)"
  by (simp add: setDefaults_def Let_def setDefaults_loop_map)

lemma Channel_setDefaults:
  "Channel (MIDI (setDefaults c)) = (if Channel (MIDI c) = 0 then - 1 else Channel (MIDI c))"
  by (simp add: setDefaults_def Let_def)

lemma Load_Inr: "Load cf = Inr c \<Longrightarrow> \<exists>c0. cf = Decodes c0 \<and> c = setDefaults c0"
  by (cases cf) (auto simp: Load_def Let_def split: option.splits)

lemma validateMIDIEvent_on_cc7:
  "validateMIDIEvent (on_cc7 64) = None" "validateMIDIEvent (on_cc7 1) = None"
  by (simp_all add: validateMIDIEvent_def on_cc7_def)

lemma validateAction_volume_up: "validateAction volume_up = None"
  by (simp add: validateAction_def volume_up_def)

lemma validateMapping_volume_mapping:
  "validateMapping (volume_mapping n 64 en) = None"
  "validateMapping (volume_mapping n 1 en) = None"
  by (simp_all add: validateMapping_def volume_mapping_def validateMIDIEvent_on_cc7
      validateAction_volume_up)

text \<open>
  C9. In a configuration that \<^verbatim>\<open>Load\<close> returns, every mapping is enabled: the mappings
  are those of the decoded file, each with \<^verbatim>\<open>Enabled\<close> set to true.
\<close>

theorem Load_enables_every_mapping:
  "Load cf = Inr c \<Longrightarrow>
     (\<forall>m \<in> set (Mappings c). Enabled m)
     \<and> (\<forall>c0. cf = Decodes c0 \<longrightarrow> Mappings c = map (\<lambda>m. m\<lparr>Enabled := True\<rparr>) (Mappings c0))"
  by (auto dest!: Load_Inr simp: Mappings_setDefaults)

theorem Load_enables_every_mapping_witness:
  "Load (Decodes (config_with 5 [volume_mapping ''a'' 64 False, volume_mapping ''b'' 1 True]))
     = Inr (config_with 5 [volume_mapping ''a'' 64 True, volume_mapping ''b'' 1 True])
   \<and> Enabled (volume_mapping ''a'' 64 True) \<and> Enabled (volume_mapping ''b'' 1 True)"
proof -
  have sD: "setDefaults (config_with 5 [volume_mapping ''a'' 64 False, volume_mapping ''b'' 1 True])
              = config_with 5 [volume_mapping ''a'' 64 True, volume_mapping ''b'' 1 True]"
    by (simp add: setDefaults_def config_with_def volume_mapping_def)
  have v: "validate (config_with 5 [volume_mapping ''a'' 64 True, volume_mapping ''b'' 1 True])
             = None"
    by (simp add: validate_def config_with_def validateMapping_volume_mapping)
  have l: "Load (Decodes (config_with 5
                   [volume_mapping ''a'' 64 False, volume_mapping ''b'' 1 True]))
     = Inr (config_with 5 [volume_mapping ''a'' 64 True, volume_mapping ''b'' 1 True])"
    by (simp add: Load_def sD v)
  show ?thesis
    using Load_enables_every_mapping [OF l] l by (simp add: config_with_def volume_mapping_def)
qed

lemma handleEvent_nonempty:
  "handleEvent h e \<noteq> [] \<longleftrightarrow>
     Channel (MIDI (config h)) = - 1 \<or> ev_Channel e = Channel (MIDI (config h))"
  by (simp add: handleEvent_def)

text \<open>
  C10. A configuration that \<^verbatim>\<open>Load\<close> returns never has channel 0: when the decoded file
  has channel 0 (declared, or absent), the returned configuration has channel -1. So a
  handler with a loaded configuration that processes an event of channel 0 processes the
  events of every channel.
\<close>

theorem Load_channel_zero_means_all:
  fixes h :: "('v, 'w, 'p) Handler"
  shows "Load cf = Inr c \<Longrightarrow>
     Channel (MIDI c) \<noteq> 0
     \<and> (\<forall>c0. cf = Decodes c0 \<and> Channel (MIDI c0) = 0 \<longrightarrow> Channel (MIDI c) = - 1)
     \<and> (config h = c \<and> ev_Channel e = 0 \<and> handleEvent h e \<noteq> []
           \<longrightarrow> handleEvent h e' \<noteq> [])"
proof -
  assume a: "Load cf = Inr c"
  then obtain c0 where c0: "cf = Decodes c0" "c = setDefaults c0"
    using Load_Inr by blast
  have 1: "Channel (MIDI c) \<noteq> 0"
    using c0 by (simp add: Channel_setDefaults)
  have 2: "\<forall>c1. cf = Decodes c1 \<and> Channel (MIDI c1) = 0 \<longrightarrow> Channel (MIDI c) = - 1"
    using c0 by (simp add: Channel_setDefaults)
  have 3: "config h = c \<and> ev_Channel e = 0 \<and> handleEvent h e \<noteq> []
           \<longrightarrow> handleEvent h e' \<noteq> []"
    using 1 by (auto simp: handleEvent_nonempty)
  show ?thesis using 1 2 3 by blast
qed

theorem Load_channel_zero_means_all_witness:
  "Load (Decodes (config_with 0 [volume_mapping ''a'' 64 True]))
     = Inr (config_with (- 1) [volume_mapping ''a'' 64 True])
   \<and> Channel (MIDI (config_with (- 1) [volume_mapping ''a'' 64 True])) = - 1
   \<and> handleEvent (handler_with (config_with (- 1) [volume_mapping ''a'' 64 True]) True)
         (cc7 90) \<noteq> []"
proof -
  let ?h = "handler_with (config_with (- 1) [volume_mapping ''a'' 64 True]) True"
  have c: "config ?h = config_with (- 1) [volume_mapping ''a'' 64 True]"
    by (simp add: handler_with_def)
  have n: "ev_Channel (note60 1) = 0"
    by (simp add: note60_def)
  have p: "handleEvent ?h (note60 1) \<noteq> []"
    by (simp add: handleEvent_nonempty handler_with_def config_with_def)
  have sD: "setDefaults (config_with 0 [volume_mapping ''a'' 64 True])
              = config_with (- 1) [volume_mapping ''a'' 64 True]"
    by (simp add: setDefaults_def config_with_def volume_mapping_def)
  have v: "validate (config_with (- 1) [volume_mapping ''a'' 64 True]) = None"
    by (simp add: validate_def config_with_def validateMapping_volume_mapping)
  have l: "Load (Decodes (config_with 0 [volume_mapping ''a'' 64 True]))
     = Inr (config_with (- 1) [volume_mapping ''a'' 64 True])"
    by (simp add: Load_def sD v)
  have z: "Channel (MIDI (config_with 0 [volume_mapping ''a'' 64 True])) = 0"
    by (simp add: config_with_def)
  show ?thesis
    using Load_channel_zero_means_all [OF l, of ?h "note60 1" "cc7 90"] l z c n p by simp
qed

end
